theory Spec2Isabelle
  imports Complex_Main
begin

section \<open>The slab-ocean model of \<^verbatim>\<open>020_run_slab_model.ipynb\<close>\<close>

text \<open>
  The notebook's function \<^verbatim>\<open>filter_windstress\<close> turns a gridded wind-stress
  field into the slab-ocean velocity response. Floating-point numbers are modelled by exact
  numbers (\<open>real\<close>, \<open>complex\<close>), so a conversion between float widths leaves the value as
  it is; the width in which an output variable is stored is kept as its \<open>dtype\<close>. The
  NaN that marks a missing sample is \<open>None\<close>. The time axis holds nanosecond time stamps,
  64-bit integers given by their values (\<open>int\<close>); every series of the grid has one sample per
  time stamp.
\<close>

subsection \<open>The integration kernel\<close>

text \<open>
  \<^verbatim>\<open>
  def integrate(T, d_1, d_2, c_0, c_2):
      q = np.zeros_like(T)
      for l in range(2, T.shape[0]):
          q[l, ...] = (
              d_1[l-1, ...] * q[l-1, ...]
              + d_2[l-2, ...] * q[l-2, ...]
              + c_0[l, ...] * T[l, ...]
              + c_2[l-2, ...] * T[l-2, ...]
          )
      return q
  \<close>
  The kernel only adds and multiplies, so it is modelled for every number type with a zero,
  an addition and a multiplication. The coefficient arguments are arrays along the time
  axis, read at the indices the source reads them at.
\<close>

definition zeros_like :: "'a list \<Rightarrow> 'a::zero list" where
  "zeros_like T = replicate (length T) 0"

definition range_py :: "nat \<Rightarrow> nat \<Rightarrow> nat list" where
  "range_py a b = [a..<b]"

definition integrate_body ::
  "'a::{zero,plus,times} list \<Rightarrow> 'a list \<Rightarrow> 'a list \<Rightarrow> 'a list \<Rightarrow> 'a list \<Rightarrow> nat \<Rightarrow> 'a list \<Rightarrow> 'a list" where
  "integrate_body T d_1 d_2 c_0 c_2 l q =
     q[l := d_1 ! (l - 1) * q ! (l - 1)
            + d_2 ! (l - 2) * q ! (l - 2)
            + c_0 ! l * T ! l
            + c_2 ! (l - 2) * T ! (l - 2)]"

definition integrate ::
  "'a::{zero,plus,times} list \<Rightarrow> 'a list \<Rightarrow> 'a list \<Rightarrow> 'a list \<Rightarrow> 'a list \<Rightarrow> 'a list" where
  "integrate T d_1 d_2 c_0 c_2 =
     fold (integrate_body T d_1 d_2 c_0 c_2) (range_py 2 (length T)) (zeros_like T)"

text \<open>
  \<^verbatim>\<open>c_0 = xr.broadcast(xr.DataArray(c_0), T)[0]\<close>: a coefficient of a grid point is
  repeated along the time axis of \<open>T\<close>.
\<close>

definition broadcast :: "'a \<Rightarrow> 'b list \<Rightarrow> 'a list" where
  "broadcast c T = replicate (length T) c"

subsection \<open>Non-finite numbers\<close>

text \<open>
  The source computes with IEEE numbers, which have infinities and NaN besides the finite
  numbers. \<open>NonFinite\<close> stands for every complex value with an infinite or NaN component:
  a sum or a product with such an operand has such a component again (also \<open>inf * 0\<close>,
  which is NaN), and so has the quotient of such a value by a finite number. The quotient
  of a finite number by zero is non-finite as well; numpy warns and goes on. On finite
  numbers the operations are the exact ones.
\<close>

datatype xnum = Finite complex | NonFinite

instantiation xnum :: "{zero,plus,times,uminus}"
begin

definition zero_xnum :: xnum where
  "zero_xnum = Finite 0"

fun plus_xnum :: "xnum \<Rightarrow> xnum \<Rightarrow> xnum" where
  "plus_xnum (Finite a) (Finite b) = Finite (a + b)"
| "plus_xnum _ _ = NonFinite"

fun times_xnum :: "xnum \<Rightarrow> xnum \<Rightarrow> xnum" where
  "times_xnum (Finite a) (Finite b) = Finite (a * b)"
| "times_xnum _ _ = NonFinite"

fun uminus_xnum :: "xnum \<Rightarrow> xnum" where
  "uminus_xnum (Finite a) = Finite (- a)"
| "uminus_xnum NonFinite = NonFinite"

instance ..

end

fun divide_by :: "xnum \<Rightarrow> complex \<Rightarrow> xnum" where
  "divide_by (Finite a) b = (if b = 0 then NonFinite else Finite (a / b))"
| "divide_by NonFinite b = NonFinite"

subsection \<open>The grid and the result\<close>

text \<open>
  A grid point carries its coordinates and its two wind-stress series, one sample per time
  stamp, \<open>None\<close> where the sample is missing (NaN). The result holds, for every grid
  point, the three output series, \<open>None\<close> where the output is masked (NaN), and for each
  of them the float type in which the array is stored.
\<close>

datatype dtype = float32 | float64

record point =
  lat :: real
  lon :: real
  taux :: "real option list"
  tauy :: "real option list"

record slab =
  slab_u :: "real option list"
  slab_v :: "real option list"
  slab_umag :: "real option list"
  slab_u_dtype :: dtype
  slab_v_dtype :: dtype
  slab_umag_dtype :: dtype

datatype error = AssertionError

subsection \<open>The uniform time step\<close>

text \<open>
  \<^verbatim>\<open>
  assert taux.time.diff("time").astype("float").std("time") / 1e9 < 1e-4
  dt = (taux.time.diff("time").astype("float").mean("time") / 1e9).data  # ns --> s
  \<close>
  \<open>diff\<close> gives the differences of consecutive time stamps. The stamps are
  \<^verbatim>\<open>datetime64[ns]\<close> values, which numpy subtracts as 64-bit integers without an overflow
  check: a difference outside the 64-bit range wraps around (\<open>int64\<close>). The bit pattern
  \<open>- 2 ^ 63\<close> is not a number but the marker \<open>NaT\<close> of a missing time. \<open>mean\<close> and \<open>std\<close>
  (the population standard deviation) of an empty array are NaN, here \<open>None\<close>, and a
  comparison with NaN is false, so the assertion fails on a time axis of fewer than two time
  stamps. The mean is defined whenever the standard deviation is, so the inner \<open>None\<close>
  case is never taken.
\<close>

definition int64 :: "int \<Rightarrow> int" where
  "int64 x = (x + 2 ^ 63) mod 2 ^ 64 - 2 ^ 63"

definition NaT :: int where
  "NaT = - (2 ^ 63)"

definition diff :: "int list \<Rightarrow> int list" where
  "diff t = map2 (\<lambda>a b. int64 (b - a)) t (tl t)"

definition mean :: "real list \<Rightarrow> real option" where
  "mean xs = (if xs = [] then None else Some (sum_list xs / real (length xs)))"

definition std :: "real list \<Rightarrow> real option" where
  "std xs =
     (case mean xs of
        None \<Rightarrow> None
      | Some m \<Rightarrow> Some (sqrt (sum_list (map (\<lambda>x. (x - m) ^ 2) xs) / real (length xs))))"

definition time_step :: "int list \<Rightarrow> error + real" where
  "time_step time =
     (let d = map real_of_int (diff time) in
      case std d of
        None \<Rightarrow> Inl AssertionError
      | Some s \<Rightarrow>
          if s / 10 ^ 9 < 1 / 10 ^ 4 then
            (case mean d of
               None \<Rightarrow> Inl AssertionError
             | Some m \<Rightarrow> Inr (m / 10 ^ 9))
          else Inl AssertionError)"

text \<open>
  The reading of the check that takes the threshold relative to the spacing: the standard
  deviation of the differences exceeds \<open>1e-4\<close> times their mean. It is used only to compare
  that reading with \<open>time_step\<close>.
\<close>

definition relative_std_exceeds :: "int list \<Rightarrow> bool" where
  "relative_std_exceeds time =
     (let d = map real_of_int (diff time) in
      case (std d, mean d) of
        (Some s, Some m) \<Rightarrow> s > (1 / 10 ^ 4) * m
      | _ \<Rightarrow> False)"

subsection \<open>Coefficients\<close>

text \<open>
  \<^verbatim>\<open>
  if f is None:
      f = 2 * 7.2921e-5 * np.sin(np.deg2rad(taux.coords["lat"]))
  \<close>
  A supplied \<open>f\<close> is a field over the grid, read at the point's coordinates.
\<close>

definition deg2rad :: "real \<Rightarrow> real" where
  "deg2rad x = x * (pi / 180)"

definition coriolis :: "(real \<Rightarrow> real \<Rightarrow> real) option \<Rightarrow> point \<Rightarrow> real" where
  "coriolis f p =
     (case f of
        None \<Rightarrow> 2 * (7.2921 / 10 ^ 5) * sin (deg2rad (lat p))
      | Some g \<Rightarrow> g (lat p) (lon p))"

text \<open>
  \<^verbatim>\<open>
  c_0 = - 1 / (epsilon + 1j * f) / rho / H
  c_2 = - c_0
  d_1 = - 2j * f * dt
  d_2 = 1 - 2 * epsilon * dt
  \<close>
  The result is the tuple \<open>(c_0, c_2, d_1, d_2)\<close>. Where a divisor is zero the source
  computes a non-finite value and goes on (a warning, no error); the exact numbers have no
  such value, and HOL's division gives \<open>0\<close> there. \<open>coefficients_ieee\<close> below keeps the
  non-finite values.
\<close>

definition coefficients ::
  "real \<Rightarrow> real \<Rightarrow> real \<Rightarrow> real \<Rightarrow> real \<Rightarrow> complex \<times> complex \<times> complex \<times> complex" where
  "coefficients epsilon rho H f dt =
     (let c_0 = - 1 / (complex_of_real epsilon + \<i> * complex_of_real f)
                  / complex_of_real rho / complex_of_real H;
          c_2 = - c_0;
          d_1 = - (2 * \<i>) * complex_of_real f * complex_of_real dt;
          d_2 = complex_of_real (1 - 2 * epsilon * dt)
      in (c_0, c_2, d_1, d_2))"

text \<open>
  The same four lines with the non-finite results of a division by zero. The arguments are
  finite numbers, so only the three divisions can leave the finite numbers.
\<close>

definition coefficients_ieee ::
  "real \<Rightarrow> real \<Rightarrow> real \<Rightarrow> real \<Rightarrow> real \<Rightarrow> xnum \<times> xnum \<times> xnum \<times> xnum" where
  "coefficients_ieee epsilon rho H f dt =
     (let c_0 = divide_by (divide_by (divide_by (Finite (- 1))
                  (complex_of_real epsilon + \<i> * complex_of_real f))
                  (complex_of_real rho)) (complex_of_real H);
          c_2 = - c_0;
          d_1 = Finite (- (2 * \<i>) * complex_of_real f * complex_of_real dt);
          d_2 = Finite (complex_of_real (1 - 2 * epsilon * dt))
      in (c_0, c_2, d_1, d_2))"

subsection \<open>Wind stress, velocity and masks of one grid point\<close>

text \<open>
  \<^verbatim>\<open>
  T = taux.astype("float32") + 1j * tauy.astype("float32")
  T = xr.where(~T.isnull(), T, 0)
  \<close>
  The sum is null where either component is NaN.
\<close>

definition complex_windstress :: "point \<Rightarrow> complex option list" where
  "complex_windstress p =
     map2 (\<lambda>x y. case (x, y) of (Some a, Some b) \<Rightarrow> Some (Complex a b) | _ \<Rightarrow> None)
       (taux p) (tauy p)"

definition windstress :: "point \<Rightarrow> complex list" where
  "windstress p = map (\<lambda>t. case t of Some z \<Rightarrow> z | None \<Rightarrow> 0) (complex_windstress p)"

text \<open>
  \<^verbatim>\<open>q = xr.apply_ufunc(integrate, T, d_1, d_2, c_0, c_2, ...)\<close> runs the kernel on
  every grid point's series, with the point's coefficients broadcast along the time axis.
\<close>

definition velocity ::
  "real \<Rightarrow> real \<Rightarrow> real \<Rightarrow> real \<Rightarrow> (real \<Rightarrow> real \<Rightarrow> real) option \<Rightarrow> point \<Rightarrow> complex list" where
  "velocity dt epsilon rho H f p =
     (let T = windstress p in
      case coefficients epsilon rho H (coriolis f p) dt of
        (c_0, c_2, d_1, d_2) \<Rightarrow>
          integrate T (broadcast d_1 T) (broadcast d_2 T) (broadcast c_0 T) (broadcast c_2 T))"

text \<open>
  \<^verbatim>\<open>
  q = q.where(xr.ufuncs.logical_not(T == 0))
  q = q.where(abs(q.coords["lat"]) > 4.0)
  \<close>
  \<open>where\<close> keeps a value where the condition holds and puts NaN elsewhere.
\<close>

definition xr_where :: "bool list \<Rightarrow> 'a option list \<Rightarrow> 'a option list" where
  "xr_where cond q = map2 (\<lambda>c v. if c then v else None) cond q"

definition mask_undefined :: "complex list \<Rightarrow> complex list \<Rightarrow> complex option list" where
  "mask_undefined T q = xr_where (map (\<lambda>t. \<not> (t = 0)) T) (map Some q)"

definition mask_equator :: "point \<Rightarrow> complex option list \<Rightarrow> complex option list" where
  "mask_equator p q = xr_where (broadcast (\<bar>lat p\<bar> > 4.0) q) q"

definition masked_velocity ::
  "real \<Rightarrow> real \<Rightarrow> real \<Rightarrow> real \<Rightarrow> (real \<Rightarrow> real \<Rightarrow> real) option \<Rightarrow> point \<Rightarrow> complex option list" where
  "masked_velocity dt epsilon rho H f p =
     mask_equator p (mask_undefined (windstress p) (velocity dt epsilon rho H f p))"

text \<open>
  \<^verbatim>\<open>
  slab_u = xr.ufuncs.real(q).astype("float32")
  slab_v = xr.ufuncs.imag(q).astype("float32")
  slab_umag = (slab_u**2 + slab_v**2)**0.5
  \<close>
  Arithmetic on NaN gives NaN. \<^verbatim>\<open>astype("float32")\<close> makes a single-precision array.
  The sum of two float arrays is stored in the wider of their two types (\<open>result_type\<close>);
  a power with a Python scalar as exponent, here \<open>2\<close> and \<open>0.5\<close>, keeps the type of the
  array.
\<close>

definition result_type :: "dtype \<Rightarrow> dtype \<Rightarrow> dtype" where
  "result_type a b = (if a = float32 \<and> b = float32 then float32 else float64)"

definition extract_uv :: "complex option list \<Rightarrow> slab" where
  "extract_uv q =
     (let u = map (map_option Re) q;
          u_dtype = float32;
          v = map (map_option Im) q;
          v_dtype = float32;
          umag = map2 (\<lambda>a b. case (a, b) of
                                (Some x, Some y) \<Rightarrow> Some ((x ^ 2 + y ^ 2) powr 0.5)
                              | _ \<Rightarrow> None) u v;
          umag_dtype = result_type u_dtype v_dtype
      in \<lparr>slab_u = u, slab_v = v, slab_umag = umag,
          slab_u_dtype = u_dtype, slab_v_dtype = v_dtype, slab_umag_dtype = umag_dtype\<rparr>)"

subsection \<open>The filter\<close>

text \<open>
  \<^verbatim>\<open>def filter_windstress(taux, tauy, epsilon=1 / 5 / 24 / 3600, rho=1035, H=10, f=None)\<close>:
  the time-step check comes first and depends on the time axis alone; then every grid point
  is filtered on its own.
\<close>

definition filter_point ::
  "real \<Rightarrow> real \<Rightarrow> real \<Rightarrow> real \<Rightarrow> (real \<Rightarrow> real \<Rightarrow> real) option \<Rightarrow> point \<Rightarrow> slab" where
  "filter_point dt epsilon rho H f p = extract_uv (masked_velocity dt epsilon rho H f p)"

definition filter_windstress ::
  "int list \<Rightarrow> point list \<Rightarrow> real \<Rightarrow> real \<Rightarrow> real \<Rightarrow> (real \<Rightarrow> real \<Rightarrow> real) option
     \<Rightarrow> error + slab list" where
  "filter_windstress time grid epsilon rho H f =
     (case time_step time of
        Inl e \<Rightarrow> Inl e
      | Inr dt \<Rightarrow> Inr (map (filter_point dt epsilon rho H f) grid))"

definition epsilon_default :: real where
  "epsilon_default = 1 / 5 / 24 / 3600"

definition rho_default :: real where
  "rho_default = 1035"

definition H_default :: real where
  "H_default = 10"

subsection \<open>The loop of the kernel\<close>

lemma length_fold_integrate_body:
  "length (fold (integrate_body T d_1 d_2 c_0 c_2) ls q) = length q"
  by (induction ls arbitrary: q) (simp_all add: integrate_body_def)

lemma fold_integrate_body_untouched:
  "i \<notin> set ls \<Longrightarrow> fold (integrate_body T d_1 d_2 c_0 c_2) ls q ! i = q ! i"
  by (induction ls arbitrary: q) (simp_all add: integrate_body_def)

lemma length_integrate: "length (integrate T d_1 d_2 c_0 c_2) = length T"
  by (simp add: integrate_def zeros_like_def length_fold_integrate_body)

lemma integrate_nth_start:
  assumes "l < 2" "l < length T"
  shows "integrate T d_1 d_2 c_0 c_2 ! l = 0"
proof -
  have "l \<notin> set (range_py 2 (length T))"
    using assms by (simp add: range_py_def)
  then have "integrate T d_1 d_2 c_0 c_2 ! l = zeros_like T ! l"
    unfolding integrate_def by (rule fold_integrate_body_untouched)
  then show ?thesis using assms by (simp add: zeros_like_def)
qed

lemma integrate_nth_prefix:
  assumes "i < m" "2 \<le> m" "m \<le> length T"
  shows "integrate T d_1 d_2 c_0 c_2 ! i =
         fold (integrate_body T d_1 d_2 c_0 c_2) [2..<m] (zeros_like T) ! i"
proof -
  have "[2..<length T] = [2..<m] @ [m..<length T]"
    using assms by (metis le_Suc_ex upt_add_eq_append)
  moreover have "i \<notin> set [m..<length T]"
    using assms by simp
  ultimately show ?thesis
    by (simp add: integrate_def range_py_def fold_integrate_body_untouched)
qed

lemma integrate_nth_step:
  assumes "2 \<le> l" "l < length T"
  shows "integrate T d_1 d_2 c_0 c_2 ! l =
         d_1 ! (l - 1) * integrate T d_1 d_2 c_0 c_2 ! (l - 1)
         + d_2 ! (l - 2) * integrate T d_1 d_2 c_0 c_2 ! (l - 2)
         + c_0 ! l * T ! l
         + c_2 ! (l - 2) * T ! (l - 2)"
proof -
  let ?step = "integrate_body T d_1 d_2 c_0 c_2"
  let ?q = "fold ?step [2..<l] (zeros_like T)"
  have len: "length ?q = length T"
    by (simp add: length_fold_integrate_body zeros_like_def)
  have "integrate T d_1 d_2 c_0 c_2 ! l = fold ?step [2..<Suc l] (zeros_like T) ! l"
    using assms by (intro integrate_nth_prefix) simp_all
  also have "\<dots> = ?step l ?q ! l"
    using assms by simp
  also have "\<dots> = d_1 ! (l - 1) * ?q ! (l - 1) + d_2 ! (l - 2) * ?q ! (l - 2)
                   + c_0 ! l * T ! l + c_2 ! (l - 2) * T ! (l - 2)"
    using assms len by (simp add: integrate_body_def)
  also have "?q ! (l - 1) = integrate T d_1 d_2 c_0 c_2 ! (l - 1)"
    using assms by (intro integrate_nth_prefix [symmetric]) simp_all
  also have "?q ! (l - 2) = integrate T d_1 d_2 c_0 c_2 ! (l - 2)"
    using assms by (intro integrate_nth_prefix [symmetric]) simp_all
  finally show ?thesis .
qed

lemma integrate_broadcast_nth:
  assumes "l < length T"
  shows "integrate T (broadcast d1 T) (broadcast d2 T) (broadcast c0 T) (broadcast c2 T) ! l =
         (if l < 2 then 0
          else d1 * integrate T (broadcast d1 T) (broadcast d2 T) (broadcast c0 T) (broadcast c2 T) ! (l - 1)
               + d2 * integrate T (broadcast d1 T) (broadcast d2 T) (broadcast c0 T) (broadcast c2 T) ! (l - 2)
               + c0 * T ! l
               + c2 * T ! (l - 2))"
proof (cases "l < 2")
  case True
  then show ?thesis using assms by (simp add: integrate_nth_start)
next
  case False
  then have "2 \<le> l" by simp
  then show ?thesis
    using assms False by (simp add: integrate_nth_step [of l T] broadcast_def)
qed

subsection \<open>Properties of the kernel\<close>

text \<open>
  C1. For a wind-stress series \<open>T\<close> of length \<open>n\<close> and a coefficient set
  \<open>(c0, c2, d1, d2)\<close> held constant along the time axis, the kernel output \<open>q\<close> has
  \<open>q\<^sub>0 = q\<^sub>1 = 0\<close>, whatever \<open>T\<^sub>0\<close> and \<open>T\<^sub>1\<close> are, and
  \<open>q\<^sub>l = d1 * q\<^sub>l\<^sub>-\<^sub>1 + d2 * q\<^sub>l\<^sub>-\<^sub>2 + c0 * T\<^sub>l + c2 * T\<^sub>l\<^sub>-\<^sub>2\<close> for every \<open>l\<close> with
  \<open>2 \<le> l \<le> n - 1\<close>. The statement holds in every arithmetic.
\<close>

theorem integrate_recursion:
  fixes T :: "'a::{zero,plus,times} list"
  assumes "l < length T"
  shows "length (integrate T (broadcast d1 T) (broadcast d2 T) (broadcast c0 T) (broadcast c2 T))
           = length T
       \<and> integrate T (broadcast d1 T) (broadcast d2 T) (broadcast c0 T) (broadcast c2 T) ! l =
         (if l < 2 then 0
          else d1 * integrate T (broadcast d1 T) (broadcast d2 T) (broadcast c0 T) (broadcast c2 T) ! (l - 1)
               + d2 * integrate T (broadcast d1 T) (broadcast d2 T) (broadcast c0 T) (broadcast c2 T) ! (l - 2)
               + c0 * T ! l
               + c2 * T ! (l - 2))"
  using assms by (intro conjI length_integrate integrate_broadcast_nth)

theorem integrate_recursion_witness:
  "(2::nat) < length [1, 2, 3 :: int]
   \<and> integrate [1, 2, 3 :: int] (broadcast 2 [1, 2, 3 :: int]) (broadcast 3 [1, 2, 3 :: int])
        (broadcast 5 [1, 2, 3 :: int]) (broadcast 7 [1, 2, 3 :: int]) ! 2 = 22"
  using integrate_recursion [of 2 "[1, 2, 3 :: int]" 2 3 5 7]
        integrate_recursion [of 1 "[1, 2, 3 :: int]" 2 3 5 7]
        integrate_recursion [of 0 "[1, 2, 3 :: int]" 2 3 5 7]
  by simp

text \<open>
  Over exact numbers zero input gives zero output, for every coefficient set.
\<close>

lemma integrate_zero_forcing_exact:
  fixes T :: "'a::semiring_0 list"
  assumes "\<forall>m<length T. T ! m = 0" and "l < length T"
  shows "integrate T (broadcast d1 T) (broadcast d2 T) (broadcast c0 T) (broadcast c2 T) ! l = 0"
  using assms(2)
proof (induction l rule: less_induct)
  case (less l)
  show ?case
  proof (cases "l < 2")
    case True
    then show ?thesis using less.prems by (simp add: integrate_broadcast_nth)
  next
    case False
    then have "l - 1 < l" "l - 2 < l" by simp_all
    moreover have "l - 1 < length T" "l - 2 < length T" using less.prems by simp_all
    ultimately have
      "integrate T (broadcast d1 T) (broadcast d2 T) (broadcast c0 T) (broadcast c2 T) ! (l - 1) = 0"
      "integrate T (broadcast d1 T) (broadcast d2 T) (broadcast c0 T) (broadcast c2 T) ! (l - 2) = 0"
      using less.IH by blast+
    moreover have "T ! l = 0" "T ! (l - 2) = 0"
      using assms(1) less.prems by simp_all
    ultimately show ?thesis
      using False less.prems by (simp add: integrate_broadcast_nth [of l T])
  qed
qed

text \<open>
  In the arithmetic with non-finite numbers the product of a finite number and zero is
  zero, and everything that meets a non-finite number is non-finite. Where no divisor is
  zero the coefficients are the finite ones of the exact model.
\<close>

lemma xnum_zero_simps:
  "Finite a * 0 = 0" "0 * Finite a = 0" "(0::xnum) + 0 = 0"
  by (simp_all add: zero_xnum_def)

lemma NonFinite_simps:
  "NonFinite * x = NonFinite" "x * NonFinite = NonFinite"
  "NonFinite + x = NonFinite" "x + NonFinite = NonFinite"
  "NonFinite \<noteq> 0"
  by (cases x; simp add: zero_xnum_def)+

lemma coefficients_ieee_finite:
  assumes "complex_of_real epsilon + \<i> * complex_of_real f \<noteq> 0" and "rho \<noteq> 0" and "H \<noteq> 0"
  shows "coefficients_ieee epsilon rho H f dt =
         (case coefficients epsilon rho H f dt of
            (c_0, c_2, d_1, d_2) \<Rightarrow> (Finite c_0, Finite c_2, Finite d_1, Finite d_2))"
  using assms by (simp add: coefficients_ieee_def coefficients_def Let_def)

lemma integrate_non_finite:
  fixes T :: "xnum list"
  assumes "2 \<le> l" and "l < length T"
  shows "integrate T (broadcast d1 T) (broadcast d2 T) (broadcast NonFinite T) (broadcast c2 T) ! l
         = NonFinite"
  using assms by (simp add: integrate_broadcast_nth [of l T] NonFinite_simps)

text \<open>
  C6, for the coefficient sets it holds for. Zero input is a fixed point of the filter for
  every coefficient set of finite numbers: if every sample \<open>T\<^sub>l\<close> is zero, every output
  \<open>q\<^sub>l\<close> is zero.
\<close>

theorem integrate_zero_forcing:
  fixes T :: "xnum list"
  assumes "\<forall>m<length T. T ! m = 0" and "l < length T"
  shows "integrate T (broadcast (Finite d1) T) (broadcast (Finite d2) T)
           (broadcast (Finite c0) T) (broadcast (Finite c2) T) ! l = 0"
  using assms(2)
proof (induction l rule: less_induct)
  case (less l)
  show ?case
  proof (cases "l < 2")
    case True
    then show ?thesis using less.prems by (simp add: integrate_broadcast_nth)
  next
    case False
    then have "l - 1 < l" "l - 2 < l" by simp_all
    moreover have "l - 1 < length T" "l - 2 < length T" using less.prems by simp_all
    ultimately have
      "integrate T (broadcast (Finite d1) T) (broadcast (Finite d2) T)
         (broadcast (Finite c0) T) (broadcast (Finite c2) T) ! (l - 1) = 0"
      "integrate T (broadcast (Finite d1) T) (broadcast (Finite d2) T)
         (broadcast (Finite c0) T) (broadcast (Finite c2) T) ! (l - 2) = 0"
      using less.IH by blast+
    moreover have "T ! l = 0" "T ! (l - 2) = 0"
      using assms(1) less.prems by simp_all
    ultimately show ?thesis
      using False less.prems by (simp add: integrate_broadcast_nth [of l T] xnum_zero_simps)
  qed
qed

theorem integrate_zero_forcing_witness:
  "set [0, 0, 0 :: xnum] = {0}
   \<and> (2::nat) < length [0, 0, 0 :: xnum]
   \<and> integrate [0, 0, 0 :: xnum] (broadcast (Finite (2 * \<i>)) [0, 0, 0 :: xnum])
        (broadcast (Finite 3) [0, 0, 0 :: xnum]) (broadcast (Finite 5) [0, 0, 0 :: xnum])
        (broadcast (Finite (- 5)) [0, 0, 0 :: xnum]) ! 2 = 0"
proof -
  have h: "\<forall>m<length [0, 0, 0 :: xnum]. [0, 0, 0 :: xnum] ! m = 0"
    by (simp add: nth_Cons')
  have l: "(2::nat) < length [0, 0, 0 :: xnum]" by simp
  have s: "set [0, 0, 0 :: xnum] = {0}" by simp
  show ?thesis
    using s l integrate_zero_forcing [OF h l, of "2 * \<i>" 3 5 "- 5"] by blast
qed

text \<open>
  With \<open>H = 0\<close> (and \<open>epsilon = 1\<close>, \<open>rho = 2\<close>, \<open>f = 1\<close>, \<open>dt = 1\<close>) the coefficients
  \<open>c_0\<close> and \<open>c_2\<close> are non-finite, and a series of four zero samples gives non-finite
  outputs at the indices 2 and 3.
\<close>

theorem zero_forcing_counterexample:
  "coefficients_ieee 1 2 0 1 1 = (NonFinite, NonFinite, Finite (- (2 * \<i>)), Finite (- 1))
   \<and> integrate [0, 0, 0, 0 :: xnum]
        (broadcast (Finite (- (2 * \<i>))) [0, 0, 0, 0 :: xnum])
        (broadcast (Finite (- 1)) [0, 0, 0, 0 :: xnum])
        (broadcast NonFinite [0, 0, 0, 0 :: xnum])
        (broadcast NonFinite [0, 0, 0, 0 :: xnum])
      = [0, 0, NonFinite, NonFinite]
   \<and> NonFinite \<noteq> (0 :: xnum)"
proof -
  have c: "coefficients_ieee 1 2 0 1 1 = (NonFinite, NonFinite, Finite (- (2 * \<i>)), Finite (- 1))"
    by (simp add: coefficients_ieee_def Let_def)
  have r: "[2..<4] = [2, 3 :: nat]"
    by (simp add: upt_rec)
  have i: "integrate [0, 0, 0, 0 :: xnum]
        (broadcast (Finite (- (2 * \<i>))) [0, 0, 0, 0 :: xnum])
        (broadcast (Finite (- 1)) [0, 0, 0, 0 :: xnum])
        (broadcast NonFinite [0, 0, 0, 0 :: xnum])
        (broadcast NonFinite [0, 0, 0, 0 :: xnum])
      = [0, 0, NonFinite, NonFinite]"
    by (simp add: integrate_def range_py_def zeros_like_def broadcast_def integrate_body_def r
        NonFinite_simps numeral_3_eq_3 numeral_2_eq_2)
  show ?thesis using c i by (simp add: NonFinite_simps)
qed

text \<open>
  C7. The recursion is causal: two input series that agree on all indices up to and
  including \<open>l\<close> give the same outputs \<open>q\<^sub>0 .. q\<^sub>l\<close>, whatever their later samples (and
  their lengths beyond \<open>l\<close>) are.
\<close>

theorem integrate_causal:
  fixes T T' :: "'a::{zero,plus,times} list"
  assumes "l < length T" and "l < length T'" and "\<forall>m\<le>l. T ! m = T' ! m" and "i \<le> l"
  shows "integrate T (broadcast d1 T) (broadcast d2 T) (broadcast c0 T) (broadcast c2 T) ! i =
         integrate T' (broadcast d1 T') (broadcast d2 T') (broadcast c0 T') (broadcast c2 T') ! i"
  using assms(4)
proof (induction i rule: less_induct)
  case (less i)
  have i: "i < length T" "i < length T'" using less.prems assms(1,2) by simp_all
  show ?case
  proof (cases "i < 2")
    case True
    then show ?thesis using i by (simp add: integrate_broadcast_nth)
  next
    case False
    then have "i - 1 < i" "i - 2 < i" by simp_all
    moreover have "i - 1 \<le> l" "i - 2 \<le> l" using less.prems by simp_all
    ultimately have
      "integrate T (broadcast d1 T) (broadcast d2 T) (broadcast c0 T) (broadcast c2 T) ! (i - 1) =
       integrate T' (broadcast d1 T') (broadcast d2 T') (broadcast c0 T') (broadcast c2 T') ! (i - 1)"
      "integrate T (broadcast d1 T) (broadcast d2 T) (broadcast c0 T) (broadcast c2 T) ! (i - 2) =
       integrate T' (broadcast d1 T') (broadcast d2 T') (broadcast c0 T') (broadcast c2 T') ! (i - 2)"
      using less.IH by blast+
    moreover have "T ! i = T' ! i" "T ! (i - 2) = T' ! (i - 2)"
      using assms(3) less.prems by simp_all
    ultimately show ?thesis
      using False i by (simp add: integrate_broadcast_nth [of i T] integrate_broadcast_nth [of i T'])
  qed
qed

theorem integrate_causal_witness:
  "(2::nat) < length [1, 2, 3, 4 :: int]
   \<and> (2::nat) < length [1, 2, 3, 9 :: int]
   \<and> take 3 [1, 2, 3, 4 :: int] = take 3 [1, 2, 3, 9 :: int]
   \<and> [1, 2, 3, 4 :: int] ! 3 \<noteq> [1, 2, 3, 9 :: int] ! 3
   \<and> integrate [1, 2, 3, 4 :: int] (broadcast 2 [1, 2, 3, 4 :: int]) (broadcast 3 [1, 2, 3, 4 :: int])
        (broadcast 5 [1, 2, 3, 4 :: int]) (broadcast 7 [1, 2, 3, 4 :: int]) ! 2 =
      integrate [1, 2, 3, 9 :: int] (broadcast 2 [1, 2, 3, 9 :: int]) (broadcast 3 [1, 2, 3, 9 :: int])
        (broadcast 5 [1, 2, 3, 9 :: int]) (broadcast 7 [1, 2, 3, 9 :: int]) ! 2"
proof -
  have a: "(2::nat) < length [1, 2, 3, 4 :: int]" by simp
  have a': "(2::nat) < length [1, 2, 3, 9 :: int]" by simp
  have b: "\<forall>m\<le>2. [1, 2, 3, 4 :: int] ! m = [1, 2, 3, 9 :: int] ! m"
  proof (intro allI impI)
    fix m :: nat assume "m \<le> 2"
    then have "m = 0 \<or> m = 1 \<or> m = 2" by arith
    then show "[1, 2, 3, 4 :: int] ! m = [1, 2, 3, 9 :: int] ! m" by auto
  qed
  have d: "[1, 2, 3, 4 :: int] ! 3 \<noteq> [1, 2, 3, 9 :: int] ! 3" by simp
  have e: "take 3 [1, 2, 3, 4 :: int] = take 3 [1, 2, 3, 9 :: int]" by simp
  show ?thesis
    using a a' e d integrate_causal [OF a a' b order_refl, of 2 3 5 7] by blast
qed

text \<open>
  C10. For an input series with fewer than three time steps the loop of the kernel has
  nothing to run over, and the kernel returns the all-zero series of the input's length,
  whatever the coefficient arrays are.
\<close>

theorem integrate_short_series:
  fixes T :: "'a::{zero,plus,times} list"
  assumes "length T \<le> 2"
  shows "range_py 2 (length T) = [] \<and>
         integrate T d_1 d_2 c_0 c_2 = replicate (length T) 0"
  using assms by (simp add: integrate_def range_py_def zeros_like_def)

theorem integrate_short_series_witness:
  "length [3, 4 :: complex] \<le> 2
   \<and> range_py 2 (length [3, 4 :: complex]) = []
   \<and> integrate [3, 4 :: complex] [\<i>, \<i>] [1, 1] [2, 2] [- 2, - 2] = replicate (length [3, 4 :: complex]) 0"
proof -
  have h: "length [3, 4 :: complex] \<le> 2" by simp
  show ?thesis
    using h integrate_short_series [OF h, of "[\<i>, \<i>]" "[1, 1]" "[2, 2]" "[- 2, - 2]"] by blast
qed

subsection \<open>The stages of the filter at one grid point\<close>

lemma length_complex_windstress:
  "length (complex_windstress p) = min (length (taux p)) (length (tauy p))"
  by (simp add: complex_windstress_def)

lemma length_windstress:
  "length (windstress p) = min (length (taux p)) (length (tauy p))"
  by (simp add: windstress_def length_complex_windstress)

lemma nth_windstress:
  assumes "l < length (taux p)" "l < length (tauy p)"
  shows "windstress p ! l =
         (case (taux p ! l, tauy p ! l) of (Some a, Some b) \<Rightarrow> Complex a b | _ \<Rightarrow> 0)"
  using assms by (simp add: windstress_def complex_windstress_def split: option.splits)

lemma length_velocity:
  "length (velocity dt epsilon rho H f p) = length (windstress p)"
  by (simp add: velocity_def Let_def length_integrate split: prod.splits)

lemma length_xr_where: "length (xr_where cond q) = min (length cond) (length q)"
  by (simp add: xr_where_def)

lemma nth_xr_where:
  "l < length cond \<Longrightarrow> l < length q \<Longrightarrow> xr_where cond q ! l = (if cond ! l then q ! l else None)"
  by (simp add: xr_where_def)

lemma length_mask_undefined:
  "length (mask_undefined T q) = min (length T) (length q)"
  by (simp add: mask_undefined_def length_xr_where)

lemma nth_mask_undefined:
  "l < length T \<Longrightarrow> l < length q \<Longrightarrow>
   mask_undefined T q ! l = (if T ! l = 0 then None else Some (q ! l))"
  by (simp add: mask_undefined_def nth_xr_where)

lemma length_mask_equator: "length (mask_equator p q) = length q"
  by (simp add: mask_equator_def length_xr_where broadcast_def)

lemma nth_mask_equator:
  "l < length q \<Longrightarrow> mask_equator p q ! l = (if \<bar>lat p\<bar> > 4 then q ! l else None)"
  by (simp add: mask_equator_def nth_xr_where broadcast_def)

lemma mask_equator_unmasked: "\<bar>lat p\<bar> > 4 \<Longrightarrow> mask_equator p q = q"
  by (rule nth_equalityI) (simp_all add: length_mask_equator nth_mask_equator)

lemma length_masked_velocity:
  "length (masked_velocity dt epsilon rho H f p) = min (length (taux p)) (length (tauy p))"
  by (simp add: masked_velocity_def length_mask_equator length_mask_undefined length_velocity
      length_windstress)

lemma nth_masked_velocity:
  assumes "l < length (taux p)" "l < length (tauy p)"
  shows "masked_velocity dt epsilon rho H f p ! l =
         (if \<bar>lat p\<bar> > 4 \<and> windstress p ! l \<noteq> 0 then Some (velocity dt epsilon rho H f p ! l) else None)"
  using assms
  by (simp add: masked_velocity_def nth_mask_equator nth_mask_undefined length_mask_undefined
      length_velocity length_windstress)

lemma slab_u_extract_uv: "slab_u (extract_uv q) = map (map_option Re) q"
  by (simp add: extract_uv_def Let_def)

lemma slab_v_extract_uv: "slab_v (extract_uv q) = map (map_option Im) q"
  by (simp add: extract_uv_def Let_def)


lemma length_slab_umag_extract_uv: "length (slab_umag (extract_uv q)) = length q"
  by (simp add: extract_uv_def Let_def)

lemma nth_slab_umag_extract_uv:
  "l < length q \<Longrightarrow>
   slab_umag (extract_uv q) ! l = map_option (\<lambda>z. sqrt ((Re z) ^ 2 + (Im z) ^ 2)) (q ! l)"
  by (cases "q ! l") (simp_all add: extract_uv_def Let_def powr_half_sqrt)

lemma filter_point_nth:
  assumes "l < length (taux p)" "l < length (tauy p)"
  shows "slab_u (filter_point dt epsilon rho H f p) ! l =
           map_option Re (masked_velocity dt epsilon rho H f p ! l)"
    and "slab_v (filter_point dt epsilon rho H f p) ! l =
           map_option Im (masked_velocity dt epsilon rho H f p ! l)"
    and "slab_umag (filter_point dt epsilon rho H f p) ! l =
           map_option (\<lambda>z. sqrt ((Re z) ^ 2 + (Im z) ^ 2)) (masked_velocity dt epsilon rho H f p ! l)"
  using assms
  by (simp_all add: filter_point_def slab_u_extract_uv slab_v_extract_uv nth_slab_umag_extract_uv
      length_masked_velocity)

lemma length_filter_point:
  "length (slab_u (filter_point dt epsilon rho H f p)) = min (length (taux p)) (length (tauy p))"
  "length (slab_v (filter_point dt epsilon rho H f p)) = min (length (taux p)) (length (tauy p))"
  "length (slab_umag (filter_point dt epsilon rho H f p)) = min (length (taux p)) (length (tauy p))"
  by (simp_all add: filter_point_def slab_u_extract_uv slab_v_extract_uv
      length_slab_umag_extract_uv length_masked_velocity)

lemma length_diff: "length (diff t) = length t - 1"
  by (simp add: diff_def)

lemma time_step_unfold:
  "time_step time =
     (let d = map real_of_int (diff time);
          m = sum_list d / real (length d);
          s = sqrt (sum_list (map (\<lambda>x. (x - m) ^ 2) d) / real (length d))
      in if length time < 2 \<or> 1 / 10 ^ 4 \<le> s / 10 ^ 9 then Inl AssertionError
         else Inr (m / 10 ^ 9))"
proof (cases "length time < 2")
  case True
  then have "diff time = []" using length_diff [of time] by simp
  then show ?thesis using True by (simp add: time_step_def std_def mean_def Let_def)
next
  case False
  then have "diff time \<noteq> []" using length_diff [of time] by auto
  then show ?thesis using False
    by (simp add: time_step_def std_def mean_def Let_def not_less)
qed

lemma filter_point_cong:
  assumes "lat p = lat p'" and "lon p = lon p'" and "windstress p = windstress p'"
  shows "filter_point dt epsilon rho H f p = filter_point dt epsilon rho H f p'"
proof -
  have "coriolis f p = coriolis f p'"
    unfolding coriolis_def assms(1,2) ..
  then have "velocity dt epsilon rho H f p = velocity dt epsilon rho H f p'"
    unfolding velocity_def assms(3) by simp
  moreover have "mask_equator p = mask_equator p'"
    unfolding mask_equator_def assms(1) ..
  ultimately show ?thesis
    unfolding filter_point_def masked_velocity_def assms(3) by simp
qed

lemma windstress_zero_as_missing:
  assumes "l < length (taux p)" and "l < length (tauy p)"
    and "taux p ! l = Some 0" and "tauy p ! l = Some 0"
  shows "windstress (p\<lparr>taux := (taux p)[l := None]\<rparr>) = windstress p"
proof (rule nth_equalityI)
  show "length (windstress (p\<lparr>taux := (taux p)[l := None]\<rparr>)) = length (windstress p)"
    by (simp add: length_windstress)
next
  fix i
  assume "i < length (windstress (p\<lparr>taux := (taux p)[l := None]\<rparr>))"
  then have i: "i < length (taux p)" "i < length (tauy p)"
    by (simp_all add: length_windstress)
  show "windstress (p\<lparr>taux := (taux p)[l := None]\<rparr>) ! i = windstress p ! i"
  proof (cases "i = l")
    case True
    then show ?thesis using assms by (simp add: nth_windstress zero_complex.code)
  next
    case False
    then show ?thesis using i by (simp add: nth_windstress)
  qed
qed

lemma filter_windstress_Inr:
  "filter_windstress time grid epsilon rho H f = Inr out \<longleftrightarrow>
   (\<exists>dt. time_step time = Inr dt \<and> out = map (filter_point dt epsilon rho H f) grid)"
  by (auto simp: filter_windstress_def split: sum.splits)

subsection \<open>Coefficients\<close>

text \<open>
  C2. When no \<open>f\<close> is supplied, the coefficient set of a grid point is
  \<open>f = 2 * 7.2921e-5 * sin(lat)\<close> (the sine of the point's latitude, which the grid holds
  in degrees), \<open>c0 = -1 / ((epsilon + i f) rho H)\<close>, \<open>c2 = -c0\<close>, \<open>d1 = -2 i f dt\<close> and
  \<open>d2 = 1 - 2 epsilon dt\<close>.
\<close>

theorem coefficients_formula:
  "coefficients epsilon rho H (coriolis None p) dt =
     (let f = 2 * (7.2921 / 10 ^ 5) * sin (deg2rad (lat p));
          c0 = - 1 / ((complex_of_real epsilon + \<i> * complex_of_real f)
                        * complex_of_real rho * complex_of_real H)
      in (c0, - c0, - 2 * \<i> * complex_of_real f * complex_of_real dt,
          1 - 2 * complex_of_real epsilon * complex_of_real dt))"
  by (simp add: coefficients_def coriolis_def Let_def divide_divide_eq_left mult.assoc)

theorem coefficients_formula_witness:
  "coefficients 1 1 1 (coriolis None \<lparr>lat = 90, lon = 0, taux = [], tauy = []\<rparr>) 1 =
     (- 1 / (1 + \<i> * complex_of_real (2 * (7.2921 / 10 ^ 5))),
      1 / (1 + \<i> * complex_of_real (2 * (7.2921 / 10 ^ 5))),
      - 2 * \<i> * complex_of_real (2 * (7.2921 / 10 ^ 5)),
      - 1)"
  using coefficients_formula [of 1 1 1 "\<lparr>lat = 90, lon = 0, taux = [], tauy = []\<rparr>" 1]
  by (simp add: deg2rad_def Let_def)

subsection \<open>The time-step check\<close>

text \<open>
  C4, as the code has it. Take a time axis of valid 64-bit time stamps (none is \<open>NaT\<close>) whose
  consecutive differences, in the wrapping 64-bit arithmetic of the source, are not \<open>NaT\<close>
  either. The filter fails with an \<open>AssertionError\<close>, and returns nothing for any grid
  point, exactly when the time axis has fewer than two time stamps or the standard deviation
  of these differences, taken in seconds, is not below the absolute threshold \<open>1e-4\<close>;
  otherwise their mean in seconds is the one \<open>dt\<close> with which every grid point is filtered.
  The outcome of the check depends on the time axis alone.
\<close>

theorem time_step_check:
  assumes "\<forall>t\<in>set time. - (2 ^ 63) < t \<and> t < 2 ^ 63"
    and "NaT \<notin> set (diff time)"
  shows "filter_windstress time grid epsilon rho H f =
     (let d = map real_of_int (diff time);
          m = sum_list d / real (length d);
          s = sqrt (sum_list (map (\<lambda>x. (x - m) ^ 2) d) / real (length d))
      in if length time < 2 \<or> 1 / 10 ^ 4 \<le> s / 10 ^ 9 then Inl AssertionError
         else Inr (map (filter_point (m / 10 ^ 9) epsilon rho H f) grid))"
  by (simp add: filter_windstress_def time_step_unfold Let_def)

theorem time_step_check_witness:
  "filter_windstress [0, 3600 * 10 ^ 9, 7200 * 10 ^ 9]
     [\<lparr>lat = 30, lon = 0, taux = [Some 1, Some 1, Some 1], tauy = [Some 0, Some 0, Some 0]\<rparr>]
     epsilon_default rho_default H_default None
   = Inr [filter_point 3600 epsilon_default rho_default H_default None
       \<lparr>lat = 30, lon = 0, taux = [Some 1, Some 1, Some 1], tauy = [Some 0, Some 0, Some 0]\<rparr>]
   \<and> filter_windstress [0]
     [\<lparr>lat = 30, lon = 0, taux = [Some 1], tauy = [Some 0]\<rparr>]
     epsilon_default rho_default H_default None
   = Inl AssertionError
   \<and> diff [- (2 ^ 63) + 3, - (2 ^ 63) + 1, 2 ^ 63 - 1] = [- 2, - 2]
   \<and> filter_windstress [- (2 ^ 63) + 3, - (2 ^ 63) + 1, 2 ^ 63 - 1]
     [\<lparr>lat = 30, lon = 0, taux = [Some 1, Some 1, Some 1], tauy = [Some 0, Some 0, Some 0]\<rparr>]
     epsilon_default rho_default H_default None
   = Inr [filter_point (- 2 / 10 ^ 9) epsilon_default rho_default H_default None
       \<lparr>lat = 30, lon = 0, taux = [Some 1, Some 1, Some 1], tauy = [Some 0, Some 0, Some 0]\<rparr>]"
proof -
  let ?g = "[\<lparr>lat = 30, lon = 0, taux = [Some 1, Some 1, Some 1], tauy = [Some 0, Some 0, Some 0]\<rparr>]"
  have d3: "diff [- (2 ^ 63) + 3, - (2 ^ 63) + 1, 2 ^ 63 - 1] = [- 2, - 2]"
    by (simp add: diff_def int64_def)
  have a1: "\<forall>t\<in>set [0, 3600 * 10 ^ 9, 7200 * 10 ^ 9 :: int]. - (2 ^ 63) < t \<and> t < 2 ^ 63"
    by simp
  have b1: "NaT \<notin> set (diff [0, 3600 * 10 ^ 9, 7200 * 10 ^ 9])"
    by (simp add: diff_def int64_def NaT_def)
  have a2: "\<forall>t\<in>set [0 :: int]. - (2 ^ 63) < t \<and> t < 2 ^ 63"
    by simp
  have b2: "NaT \<notin> set (diff [0])"
    by (simp add: diff_def)
  have a3: "\<forall>t\<in>set [- (2 ^ 63) + 3, - (2 ^ 63) + 1, 2 ^ 63 - 1 :: int]. - (2 ^ 63) < t \<and> t < 2 ^ 63"
    by simp
  have b3: "NaT \<notin> set (diff [- (2 ^ 63) + 3, - (2 ^ 63) + 1, 2 ^ 63 - 1])"
    by (simp add: diff_def int64_def NaT_def)
  have "filter_windstress [0, 3600 * 10 ^ 9, 7200 * 10 ^ 9] ?g
          epsilon_default rho_default H_default None
        = Inr [filter_point 3600 epsilon_default rho_default H_default None (?g ! 0)]"
    using time_step_check [OF a1 b1, of ?g epsilon_default rho_default H_default None]
    by (simp add: diff_def int64_def Let_def)
  moreover have "filter_windstress [0] [\<lparr>lat = 30, lon = 0, taux = [Some 1], tauy = [Some 0]\<rparr>]
          epsilon_default rho_default H_default None = Inl AssertionError"
    using time_step_check [OF a2 b2,
        of "[\<lparr>lat = 30, lon = 0, taux = [Some 1], tauy = [Some 0]\<rparr>]"
          epsilon_default rho_default H_default None]
    by (simp add: diff_def Let_def)
  moreover have "filter_windstress [- (2 ^ 63) + 3, - (2 ^ 63) + 1, 2 ^ 63 - 1] ?g
          epsilon_default rho_default H_default None
        = Inr [filter_point (- 2 / 10 ^ 9) epsilon_default rho_default H_default None (?g ! 0)]"
    using time_step_check [OF a3 b3, of ?g epsilon_default rho_default H_default None]
    by (simp add: diff_def int64_def Let_def)
  ultimately show ?thesis
    using d3 by simp
qed

text \<open>
  The threshold is not relative to the spacing. Daily time stamps that are off by one
  second have a standard deviation of about \<open>1.2e-5\<close> of the spacing and are rejected;
  time stamps a millisecond apart with a standard deviation of a twentieth of the spacing
  are accepted.
\<close>

theorem relative_threshold_counterexample:
  "\<not> relative_std_exceeds [0, 86399 * 10 ^ 9, 172800 * 10 ^ 9]
   \<and> filter_windstress [0, 86399 * 10 ^ 9, 172800 * 10 ^ 9]
        [\<lparr>lat = 30, lon = 0, taux = [Some 1, Some 1, Some 1], tauy = [Some 0, Some 0, Some 0]\<rparr>]
        epsilon_default rho_default H_default None = Inl AssertionError
   \<and> relative_std_exceeds [0, 950000, 2000000]
   \<and> filter_windstress [0, 950000, 2000000]
        [\<lparr>lat = 30, lon = 0, taux = [Some 1, Some 1, Some 1], tauy = [Some 0, Some 0, Some 0]\<rparr>]
        epsilon_default rho_default H_default None
      = Inr [filter_point (1 / 1000) epsilon_default rho_default H_default None
          \<lparr>lat = 30, lon = 0, taux = [Some 1, Some 1, Some 1], tauy = [Some 0, Some 0, Some 0]\<rparr>]"
proof -
  have a: "sqrt ((10 ^ 9) ^ 2) = (10 ^ 9 :: real)" by (rule real_sqrt_unique) simp_all
  have b: "sqrt (50000 ^ 2) = (50000 :: real)" by (rule real_sqrt_unique) simp_all
  have "\<not> relative_std_exceeds [0, 86399 * 10 ^ 9, 172800 * 10 ^ 9]"
    using a by (simp add: relative_std_exceeds_def std_def mean_def diff_def int64_def Let_def)
  moreover have "time_step [0, 86399 * 10 ^ 9, 172800 * 10 ^ 9] = Inl AssertionError"
    using a by (simp add: time_step_unfold diff_def int64_def Let_def)
  moreover have "relative_std_exceeds [0, 950000, 2000000]"
    using b by (simp add: relative_std_exceeds_def std_def mean_def diff_def int64_def Let_def)
  moreover have "time_step [0, 950000, 2000000] = Inr (1 / 1000)"
    using b by (simp add: time_step_unfold diff_def int64_def Let_def)
  ultimately show ?thesis
    by (simp add: filter_windstress_def)
qed

subsection \<open>Missing samples and the masks\<close>

text \<open>
  A missing sample enters the recursion as zero, at its own index, and the outputs at that
  index are masked.
\<close>

lemma missing_sample_masked:
  assumes "l < length (taux p)" "l < length (tauy p)"
    and "taux p ! l = None \<or> tauy p ! l = None"
  shows "complex_windstress p ! l = None"
    and "windstress p ! l = 0"
    and "length (windstress p) = min (length (taux p)) (length (tauy p))"
    and "slab_u (filter_point dt epsilon rho H f p) ! l = None"
    and "slab_v (filter_point dt epsilon rho H f p) ! l = None"
    and "slab_umag (filter_point dt epsilon rho H f p) ! l = None"
  using assms
  by (auto simp: complex_windstress_def nth_windstress length_windstress filter_point_nth
      nth_masked_velocity split: option.splits)

text \<open>
  C3 asks for missingness to be tracked apart from the zero that stands in for a missing
  sample. The mask is read off the zero-filled series instead: at index 2 of the series
  below the sample is valid and zero, its output is masked all the same, and the whole
  result is the one of the series whose sample at index 2 is missing.
\<close>

theorem valid_zero_sample_failing_input:
  "filter_windstress [0, 3600 * 10 ^ 9, 7200 * 10 ^ 9]
     [\<lparr>lat = 30, lon = 0, taux = [Some 1, Some 1, Some 0], tauy = [Some 0, Some 0, Some 0]\<rparr>]
     epsilon_default rho_default H_default None
   = Inr [filter_point 3600 epsilon_default rho_default H_default None
     \<lparr>lat = 30, lon = 0, taux = [Some 1, Some 1, Some 0], tauy = [Some 0, Some 0, Some 0]\<rparr>]
   \<and> complex_windstress
        \<lparr>lat = 30, lon = 0, taux = [Some 1, Some 1, Some 0], tauy = [Some 0, Some 0, Some 0]\<rparr> ! 2
       = Some 0
   \<and> slab_u (filter_point 3600 epsilon_default rho_default H_default None
        \<lparr>lat = 30, lon = 0, taux = [Some 1, Some 1, Some 0], tauy = [Some 0, Some 0, Some 0]\<rparr>) ! 2 = None
   \<and> filter_point 3600 epsilon_default rho_default H_default None
        \<lparr>lat = 30, lon = 0, taux = [Some 1, Some 1, Some 0], tauy = [Some 0, Some 0, Some 0]\<rparr>
     = filter_point 3600 epsilon_default rho_default H_default None
        \<lparr>lat = 30, lon = 0, taux = [Some 1, Some 1, None], tauy = [Some 0, Some 0, Some 0]\<rparr>"
proof -
  let ?p = "\<lparr>lat = 30, lon = 0, taux = [Some 1, Some 1, Some 0], tauy = [Some 0, Some 0, Some 0]\<rparr>"
  let ?p' = "\<lparr>lat = 30, lon = 0, taux = [Some 1, Some 1, None], tauy = [Some 0, Some 0, Some 0]\<rparr>"
  have run: "filter_windstress [0, 3600 * 10 ^ 9, 7200 * 10 ^ 9] [?p]
       epsilon_default rho_default H_default None
     = Inr [filter_point 3600 epsilon_default rho_default H_default None ?p]"
    by (simp add: filter_windstress_def time_step_unfold diff_def int64_def Let_def)
  have valid: "complex_windstress ?p ! 2 = Some 0"
    by (simp add: complex_windstress_def zero_complex.code)
  have w: "windstress ?p = windstress ?p'"
    by (simp add: windstress_def complex_windstress_def zero_complex.code)
  have "windstress ?p ! 2 = 0"
    by (simp add: nth_windstress zero_complex.code)
  then have masked: "slab_u (filter_point 3600 epsilon_default rho_default H_default None ?p) ! 2 = None"
    by (simp add: filter_point_nth nth_masked_velocity)
  have same: "filter_point 3600 epsilon_default rho_default H_default None ?p
     = filter_point 3600 epsilon_default rho_default H_default None ?p'"
    using w by (simp add: filter_point_def masked_velocity_def velocity_def mask_equator_def
        coriolis_def)
  show ?thesis using run valid masked same by blast
qed

text \<open>
  C9. Where both wind-stress components of a sample are valid and exactly zero, the
  complex sample is not null but equals the zero that replaces a missing sample, the
  outputs at that index are masked, and the result is the one of the series in which that
  sample is missing.
\<close>

theorem zero_sample_masked:
  assumes "filter_windstress time grid epsilon rho H f = Inr out"
    and "time_step time = Inr dt"
    and "p < length grid"
    and "l < length (taux (grid ! p))" and "l < length (tauy (grid ! p))"
    and "taux (grid ! p) ! l = Some 0" and "tauy (grid ! p) ! l = Some 0"
  shows "complex_windstress (grid ! p) ! l = Some 0
         \<and> windstress (grid ! p) ! l = 0
         \<and> slab_u (out ! p) ! l = None \<and> slab_v (out ! p) ! l = None
         \<and> slab_umag (out ! p) ! l = None
         \<and> out ! p = filter_point dt epsilon rho H f
                        ((grid ! p)\<lparr>taux := (taux (grid ! p))[l := None]\<rparr>)"
proof -
  have "out = map (filter_point dt epsilon rho H f) grid"
    using assms(1,2) by (auto simp: filter_windstress_Inr)
  then have o: "out ! p = filter_point dt epsilon rho H f (grid ! p)"
    using assms(3) by simp
  have valid: "complex_windstress (grid ! p) ! l = Some 0"
    using assms(4-7) by (simp add: complex_windstress_def zero_complex.code)
  have zero: "windstress (grid ! p) ! l = 0"
    using assms(4-7) by (simp add: nth_windstress zero_complex.code)
  have masked: "slab_u (out ! p) ! l = None \<and> slab_v (out ! p) ! l = None
      \<and> slab_umag (out ! p) ! l = None"
    using assms(4,5) zero by (simp add: o filter_point_nth nth_masked_velocity)
  have "windstress ((grid ! p)\<lparr>taux := (taux (grid ! p))[l := None]\<rparr>) = windstress (grid ! p)"
    using assms(4-7) by (rule windstress_zero_as_missing)
  then have "filter_point dt epsilon rho H f ((grid ! p)\<lparr>taux := (taux (grid ! p))[l := None]\<rparr>)
      = filter_point dt epsilon rho H f (grid ! p)"
    by (intro filter_point_cong) simp_all
  then show ?thesis using valid zero masked o by simp
qed

theorem zero_sample_masked_witness:
  "filter_windstress [0, 3600 * 10 ^ 9, 7200 * 10 ^ 9]
     [\<lparr>lat = 30, lon = 0, taux = [Some 1, Some 1, Some 0], tauy = [Some 0, Some 0, Some 0]\<rparr>]
     epsilon_default rho_default H_default None
   = Inr (map (filter_point 3600 epsilon_default rho_default H_default None)
     [\<lparr>lat = 30, lon = 0, taux = [Some 1, Some 1, Some 0], tauy = [Some 0, Some 0, Some 0]\<rparr>])
   \<and> time_step [0, 3600 * 10 ^ 9, 7200 * 10 ^ 9] = Inr 3600
   \<and> slab_u (filter_point 3600 epsilon_default rho_default H_default None
        \<lparr>lat = 30, lon = 0, taux = [Some 1, Some 1, Some 0], tauy = [Some 0, Some 0, Some 0]\<rparr>) ! 2 = None"
proof -
  let ?g = "[\<lparr>lat = 30, lon = 0, taux = [Some 1, Some 1, Some 0], tauy = [Some 0, Some 0, Some 0]\<rparr>]"
  have dt: "time_step [0, 3600 * 10 ^ 9, 7200 * 10 ^ 9] = Inr 3600"
    by (simp add: time_step_unfold diff_def int64_def Let_def)
  have run: "filter_windstress [0, 3600 * 10 ^ 9, 7200 * 10 ^ 9] ?g
       epsilon_default rho_default H_default None
     = Inr (map (filter_point 3600 epsilon_default rho_default H_default None) ?g)"
    using dt by (simp add: filter_windstress_def)
  have h: "0 < length ?g" "2 < length (taux (?g ! 0))" "2 < length (tauy (?g ! 0))"
    "taux (?g ! 0) ! 2 = Some 0" "tauy (?g ! 0) ! 2 = Some 0"
    by simp_all
  have "slab_u (map (filter_point 3600 epsilon_default rho_default H_default None) ?g ! 0) ! 2 = None"
    using zero_sample_masked [OF run dt h] by blast
  then show ?thesis
    using run dt by simp
qed

text \<open>
  C5. At a grid point with \<open>|lat| \<le> 4\<close> degrees every output time step is masked,
  whatever the wind-stress series holds; at a grid point with \<open>|lat| > 4\<close> the equatorial
  rule changes nothing: the result is the one obtained from the series masked for
  undefined wind stress only.
\<close>

theorem equatorial_mask:
  assumes "filter_windstress time grid epsilon rho H f = Inr out"
    and "time_step time = Inr dt"
    and "p < length grid"
    and "l < length (taux (grid ! p))" and "l < length (tauy (grid ! p))"
  shows "length (slab_u (out ! p)) = min (length (taux (grid ! p))) (length (tauy (grid ! p)))
       \<and> length (slab_v (out ! p)) = min (length (taux (grid ! p))) (length (tauy (grid ! p)))
       \<and> length (slab_umag (out ! p)) = min (length (taux (grid ! p))) (length (tauy (grid ! p)))
       \<and> (if \<bar>lat (grid ! p)\<bar> \<le> 4
          then slab_u (out ! p) ! l = None \<and> slab_v (out ! p) ! l = None
               \<and> slab_umag (out ! p) ! l = None
          else out ! p = extract_uv (mask_undefined (windstress (grid ! p))
                           (velocity dt epsilon rho H f (grid ! p))))"
proof -
  have "out = map (filter_point dt epsilon rho H f) grid"
    using assms(1,2) by (auto simp: filter_windstress_Inr)
  then have o: "out ! p = filter_point dt epsilon rho H f (grid ! p)"
    using assms(3) by simp
  have "if \<bar>lat (grid ! p)\<bar> \<le> 4
        then slab_u (out ! p) ! l = None \<and> slab_v (out ! p) ! l = None
             \<and> slab_umag (out ! p) ! l = None
        else out ! p = extract_uv (mask_undefined (windstress (grid ! p))
                         (velocity dt epsilon rho H f (grid ! p)))"
  proof (cases "\<bar>lat (grid ! p)\<bar> \<le> 4")
    case True
    then show ?thesis
      using assms(4,5) by (simp add: o filter_point_nth nth_masked_velocity)
  next
    case False
    then have "masked_velocity dt epsilon rho H f (grid ! p) =
               mask_undefined (windstress (grid ! p)) (velocity dt epsilon rho H f (grid ! p))"
      by (simp add: masked_velocity_def mask_equator_unmasked)
    then show ?thesis using False by (simp add: o filter_point_def)
  qed
  then show ?thesis
    by (simp only: o length_filter_point simp_thms)
qed

theorem equatorial_mask_witness:
  "filter_windstress [0, 3600 * 10 ^ 9, 7200 * 10 ^ 9]
     [\<lparr>lat = 2, lon = 0, taux = [Some 1, Some 1, Some 1], tauy = [Some 0, Some 0, Some 0]\<rparr>,
      \<lparr>lat = 30, lon = 0, taux = [Some 1, Some 1, Some 1], tauy = [Some 0, Some 0, Some 0]\<rparr>]
     epsilon_default rho_default H_default None
   = Inr (map (filter_point 3600 epsilon_default rho_default H_default None)
     [\<lparr>lat = 2, lon = 0, taux = [Some 1, Some 1, Some 1], tauy = [Some 0, Some 0, Some 0]\<rparr>,
      \<lparr>lat = 30, lon = 0, taux = [Some 1, Some 1, Some 1], tauy = [Some 0, Some 0, Some 0]\<rparr>])
   \<and> time_step [0, 3600 * 10 ^ 9, 7200 * 10 ^ 9] = Inr 3600
   \<and> slab_u (filter_point 3600 epsilon_default rho_default H_default None
        \<lparr>lat = 2, lon = 0, taux = [Some 1, Some 1, Some 1], tauy = [Some 0, Some 0, Some 0]\<rparr>) ! 2 = None
   \<and> filter_point 3600 epsilon_default rho_default H_default None
        \<lparr>lat = 30, lon = 0, taux = [Some 1, Some 1, Some 1], tauy = [Some 0, Some 0, Some 0]\<rparr>
     = extract_uv (mask_undefined
         (windstress \<lparr>lat = 30, lon = 0, taux = [Some 1, Some 1, Some 1], tauy = [Some 0, Some 0, Some 0]\<rparr>)
         (velocity 3600 epsilon_default rho_default H_default None
           \<lparr>lat = 30, lon = 0, taux = [Some 1, Some 1, Some 1], tauy = [Some 0, Some 0, Some 0]\<rparr>))"
proof -
  let ?g = "[\<lparr>lat = 2, lon = 0, taux = [Some 1, Some 1, Some 1], tauy = [Some 0, Some 0, Some 0]\<rparr>,
      \<lparr>lat = 30, lon = 0, taux = [Some 1, Some 1, Some 1], tauy = [Some 0, Some 0, Some 0]\<rparr>]"
  have dt: "time_step [0, 3600 * 10 ^ 9, 7200 * 10 ^ 9] = Inr 3600"
    by (simp add: time_step_unfold diff_def int64_def Let_def)
  have run: "filter_windstress [0, 3600 * 10 ^ 9, 7200 * 10 ^ 9] ?g
       epsilon_default rho_default H_default None
     = Inr (map (filter_point 3600 epsilon_default rho_default H_default None) ?g)"
    using dt by (simp add: filter_windstress_def)
  have h0: "0 < length ?g" "2 < length (taux (?g ! 0))" "2 < length (tauy (?g ! 0))"
    by simp_all
  have h1: "1 < length ?g" "2 < length (taux (?g ! 1))" "2 < length (tauy (?g ! 1))"
    by simp_all
  show ?thesis
    using run dt equatorial_mask [OF run dt h0] equatorial_mask [OF run dt h1]
    by simp
qed

subsection \<open>The output variables\<close>



end
